theory Spec2Isabelle
  imports Complex_Main
begin

section \<open>JavaScript numbers\<close>

text \<open>
  The engine is TypeScript; every quantity it computes is a JavaScript \<open>number\<close>, an
  IEEE 754 binary64 value. A value is modelled as a finite real, one of the two
  infinities, \<open>NaN\<close>, or \<open>undefined\<close> (what an out-of-range array read or a missing
  argument yields). Every sum, difference, product, quotient and square root of finite
  values is the exact real result rounded to the nearest double, ties to even (\<open>fl\<close>
  below), and a decimal literal of the source is the double nearest to it (\<open>lit\<close>).
  Propagation of \<open>NaN\<close>, division by zero, comparisons with \<open>NaN\<close> and the coercion of
  \<open>undefined\<close> to \<open>NaN\<close> in arithmetic follow ECMAScript. Not modelled: overflow to
  infinity and subnormal results (the exponent range of \<open>fl\<close> is unbounded), and the
  sign of zero (a zero divisor is taken as \<open>+0\<close>).
\<close>

subsection \<open>Rounding to the nearest double\<close>

text \<open>The number of binary digits of a natural number.\<close>

fun bit_length :: "nat \<Rightarrow> nat" where
  "bit_length n = (if n = 0 then 0 else Suc (bit_length (n div 2)))"

declare bit_length.simps [simp del]

text \<open>The binary exponent of a non-zero real: the \<open>e\<close> with \<open>2^e \<le> |x| < 2^(e+1)\<close>.\<close>

definition expo :: "real \<Rightarrow> int" where
  "expo x = (if 1 \<le> \<bar>x\<bar> then int (bit_length (nat \<lfloor>\<bar>x\<bar>\<rfloor>)) - 1
             else - int (bit_length (nat (\<lceil>1 / \<bar>x\<bar>\<rceil> - 1))))"

text \<open>The spacing of the doubles in the binade of \<open>x\<close>: 52 fraction bits below the
  leading one.\<close>

definition ulp :: "real \<Rightarrow> real" where
  "ulp x = (if 52 \<le> expo x then 2 ^ nat (expo x - 52) else 1 / 2 ^ nat (52 - expo x))"

text \<open>The nearest integer, a tie going to the even one.\<close>

definition round_even :: "real \<Rightarrow> int" where
  "round_even y =
     (let f = \<lfloor>y\<rfloor>; d = y - of_int f
      in if d < 1 / 2 then f else if 1 / 2 < d then f + 1
         else if even f then f else f + 1)"

definition fl :: "real \<Rightarrow> real" where
  "fl x = (if x = 0 then 0 else of_int (round_even (x / ulp x)) * ulp x)"

subsection \<open>Values and operators\<close>

datatype jsval = Fin real | PInf | NInf | NaN | Undefined

fun js_add :: "jsval \<Rightarrow> jsval \<Rightarrow> jsval" where
  "js_add (Fin a) (Fin b) = Fin (fl (a + b))"
| "js_add (Fin a) PInf = PInf"
| "js_add (Fin a) NInf = NInf"
| "js_add PInf (Fin b) = PInf"
| "js_add PInf PInf = PInf"
| "js_add NInf (Fin b) = NInf"
| "js_add NInf NInf = NInf"
| "js_add _ _ = NaN"

fun js_neg :: "jsval \<Rightarrow> jsval" where
  "js_neg (Fin a) = Fin (- a)"
| "js_neg PInf = NInf"
| "js_neg NInf = PInf"
| "js_neg _ = NaN"

text \<open>Negation is exact, so \<open>a - b\<close> is the rounded sum of \<open>a\<close> and \<open>- b\<close>.\<close>

definition js_sub :: "jsval \<Rightarrow> jsval \<Rightarrow> jsval" where
  "js_sub a b = js_add a (js_neg b)"

fun js_mul :: "jsval \<Rightarrow> jsval \<Rightarrow> jsval" where
  "js_mul (Fin a) (Fin b) = Fin (fl (a * b))"
| "js_mul (Fin a) PInf = (if 0 < a then PInf else if a < 0 then NInf else NaN)"
| "js_mul (Fin a) NInf = (if 0 < a then NInf else if a < 0 then PInf else NaN)"
| "js_mul PInf (Fin b) = (if 0 < b then PInf else if b < 0 then NInf else NaN)"
| "js_mul NInf (Fin b) = (if 0 < b then NInf else if b < 0 then PInf else NaN)"
| "js_mul PInf PInf = PInf"
| "js_mul PInf NInf = NInf"
| "js_mul NInf PInf = NInf"
| "js_mul NInf NInf = PInf"
| "js_mul _ _ = NaN"

fun js_div :: "jsval \<Rightarrow> jsval \<Rightarrow> jsval" where
  "js_div (Fin a) (Fin b) =
     (if b \<noteq> 0 then Fin (fl (a / b))
      else if 0 < a then PInf else if a < 0 then NInf else NaN)"
| "js_div (Fin a) PInf = Fin 0"
| "js_div (Fin a) NInf = Fin 0"
| "js_div PInf (Fin b) = (if 0 \<le> b then PInf else NInf)"
| "js_div NInf (Fin b) = (if 0 \<le> b then NInf else PInf)"
| "js_div _ _ = NaN"

text \<open>A decimal literal of the source.\<close>

definition lit :: "real \<Rightarrow> jsval" where
  "lit x = Fin (fl x)"

text \<open>The relational operators: every comparison with \<open>NaN\<close> (or \<open>undefined\<close>) is false.\<close>

fun js_lt :: "jsval \<Rightarrow> jsval \<Rightarrow> bool" where
  "js_lt (Fin a) (Fin b) = (a < b)"
| "js_lt (Fin a) PInf = True"
| "js_lt NInf (Fin b) = True"
| "js_lt NInf PInf = True"
| "js_lt _ _ = False"

fun is_number :: "jsval \<Rightarrow> bool" where
  "is_number NaN = False"
| "is_number Undefined = False"
| "is_number _ = True"

definition js_gt :: "jsval \<Rightarrow> jsval \<Rightarrow> bool" where
  "js_gt a b = js_lt b a"

definition js_le :: "jsval \<Rightarrow> jsval \<Rightarrow> bool" where
  "js_le a b = (js_lt a b \<or> (is_number a \<and> a = b))"

definition js_ge :: "jsval \<Rightarrow> jsval \<Rightarrow> bool" where
  "js_ge a b = js_le b a"

text \<open>\<open>Math.min\<close>, \<open>Math.max\<close>, \<open>Math.abs\<close> and \<open>Math.round\<close> (to the nearest integer,
  a tie going up) are exact; \<open>Math.sqrt\<close> is correctly rounded; \<open>Math.pow(x, 2)\<close> is
  taken as the rounded product \<open>x * x\<close>.\<close>

definition js_min :: "jsval \<Rightarrow> jsval \<Rightarrow> jsval" where
  "js_min a b = (if \<not> is_number a \<or> \<not> is_number b then NaN else if js_lt b a then b else a)"

definition js_max :: "jsval \<Rightarrow> jsval \<Rightarrow> jsval" where
  "js_max a b = (if \<not> is_number a \<or> \<not> is_number b then NaN else if js_lt a b then b else a)"

fun js_abs :: "jsval \<Rightarrow> jsval" where
  "js_abs (Fin a) = Fin \<bar>a\<bar>"
| "js_abs PInf = PInf"
| "js_abs NInf = PInf"
| "js_abs _ = NaN"

fun js_round :: "jsval \<Rightarrow> jsval" where
  "js_round (Fin a) = Fin (of_int \<lfloor>a + 1 / 2\<rfloor>)"
| "js_round PInf = PInf"
| "js_round NInf = NInf"
| "js_round _ = NaN"

fun js_sqrt :: "jsval \<Rightarrow> jsval" where
  "js_sqrt (Fin a) = (if a < 0 then NaN else Fin (fl (sqrt a)))"
| "js_sqrt PInf = PInf"
| "js_sqrt _ = NaN"

definition js_pow2 :: "jsval \<Rightarrow> jsval" where
  "js_pow2 x = js_mul x x"

text \<open>Truthiness of a number under \<open>!x\<close>: zero, \<open>NaN\<close> and \<open>undefined\<close> are falsy.\<close>

fun js_falsy :: "jsval \<Rightarrow> bool" where
  "js_falsy (Fin a) = (a = 0)"
| "js_falsy NaN = True"
| "js_falsy Undefined = True"
| "js_falsy _ = False"

text \<open>The nullish coalescing \<open>x ?? d\<close>.\<close>

definition nullish :: "jsval \<Rightarrow> jsval \<Rightarrow> jsval" where
  "nullish x d = (if x = Undefined then d else x)"

subsection \<open>Arrays\<close>

text \<open>An index read \<open>xs[i]\<close>: out of range (also at a negative index) it is \<open>undefined\<close>.\<close>

definition js_nth :: "jsval list \<Rightarrow> int \<Rightarrow> jsval" where
  "js_nth xs i = (if 0 \<le> i \<and> i < int (length xs) then xs ! nat i else Undefined)"

text \<open>\<open>xs.slice(s, e)\<close> and \<open>xs.slice(s)\<close>: a negative bound counts from the end, and
  both bounds are clipped to the array.\<close>

definition js_slice :: "'a list \<Rightarrow> int \<Rightarrow> int \<Rightarrow> 'a list" where
  "js_slice xs s e =
     (let n = int (length xs);
          from = (if s < 0 then max 0 (n + s) else min s n);
          to = (if e < 0 then max 0 (n + e) else min e n)
      in take (nat (to - from)) (drop (nat from) xs))"

definition js_slice_from :: "'a list \<Rightarrow> int \<Rightarrow> 'a list" where
  "js_slice_from xs s = js_slice xs s (int (length xs))"

text \<open>\<open>xs.reduce((a, b) => a + b, 0)\<close>, and the same without an initial value, which
  throws a TypeError on the empty array.\<close>

definition reduce_add0 :: "jsval list \<Rightarrow> jsval" where
  "reduce_add0 xs = foldl js_add (Fin 0) xs"

fun reduce_add :: "jsval list \<Rightarrow> jsval option" where
  "reduce_add [] = None"
| "reduce_add (x # xs) = Some (foldl js_add x xs)"

section \<open>Indicator library (services/technicalAnalysis.ts)\<close>

subsection \<open>calculateEMA\<close>

text \<open>
  \<^verbatim>\<open>const multiplier = 2 / (period + 1);
  const ema = [prices[0]];
  for (let i = 1; i < prices.length; i++) {
    const currentEMA = (prices[i] - ema[i - 1]) * multiplier + ema[i - 1];
    ema.push(currentEMA);
  }\<close>
  The loop runs over \<open>prices[1..]\<close>; \<open>prev\<close> is \<open>ema[i - 1]\<close>, the value pushed last.
\<close>

fun ema_loop :: "jsval \<Rightarrow> jsval \<Rightarrow> jsval list \<Rightarrow> jsval list" where
  "ema_loop multiplier prev [] = []"
| "ema_loop multiplier prev (p # ps) =
     (let currentEMA = js_add (js_mul (js_sub p prev) multiplier) prev
      in currentEMA # ema_loop multiplier currentEMA ps)"

definition calculateEMA :: "jsval list \<Rightarrow> jsval \<Rightarrow> jsval list" where
  "calculateEMA prices period =
     (let multiplier = js_div (Fin 2) (js_add period (Fin 1));
          seed = js_nth prices 0
      in seed # ema_loop multiplier seed (drop 1 prices))"

subsection \<open>calculateRSI\<close>

text \<open>
  The period is a non-negative integer (the callers use the default 14). The first loop
  fills \<open>gains\<close> and \<open>losses\<close> from the day-over-day changes; the seed averages are the
  sums of the first \<open>period\<close> entries divided by \<open>period\<close>; the second loop is Wilder's
  smoothing for \<open>i = period, ..., prices.length - 2\<close>, pushing one value per step.
\<close>

definition rsi_value :: "jsval \<Rightarrow> jsval \<Rightarrow> jsval" where
  "rsi_value avgGain avgLoss =
     js_sub (Fin 100) (js_div (Fin 100) (js_add (Fin 1) (js_div avgGain avgLoss)))"

definition price_changes :: "jsval list \<Rightarrow> jsval list" where
  "price_changes prices =
     map (\<lambda>i. js_sub (js_nth prices (int i)) (js_nth prices (int i - 1))) [1 ..< length prices]"

definition gain_of :: "jsval \<Rightarrow> jsval" where
  "gain_of change = (if js_gt change (Fin 0) then change else Fin 0)"

definition loss_of :: "jsval \<Rightarrow> jsval" where
  "loss_of change = (if js_lt change (Fin 0) then js_neg change else Fin 0)"

definition rsi_step ::
  "nat \<Rightarrow> jsval list \<Rightarrow> jsval list \<Rightarrow> nat \<Rightarrow> jsval \<times> jsval \<times> jsval list
     \<Rightarrow> jsval \<times> jsval \<times> jsval list" where
  "rsi_step period gains losses i st =
     (case st of (avgGain, avgLoss, rsi) \<Rightarrow>
        let avgGain' = js_div (js_add (js_mul avgGain (Fin (real period - 1))) (js_nth gains (int i)))
                              (Fin (real period));
            avgLoss' = js_div (js_add (js_mul avgLoss (Fin (real period - 1))) (js_nth losses (int i)))
                              (Fin (real period))
        in (avgGain', avgLoss', rsi @ [rsi_value avgGain' avgLoss']))"

definition calculateRSI :: "jsval list \<Rightarrow> nat \<Rightarrow> jsval list" where
  "calculateRSI prices period =
     (let gains = map gain_of (price_changes prices);
          losses = map loss_of (price_changes prices);
          avgGain = js_div (reduce_add0 (js_slice gains 0 (int period))) (Fin (real period));
          avgLoss = js_div (reduce_add0 (js_slice losses 0 (int period))) (Fin (real period));
          rsi = [rsi_value avgGain avgLoss]
      in snd (snd (fold (rsi_step period gains losses) [period ..< length prices - 1]
                        (avgGain, avgLoss, rsi))))"

subsection \<open>calculateBollingerBands\<close>

record BollingerBands =
  upper :: "jsval list"
  middle :: "jsval list"
  lower :: "jsval list"
  bandWidths :: "jsval list"
  averageBandWidth :: jsval

text \<open>
  One iteration of the loop, at index \<open>i\<close>: the window \<open>prices.slice(i - period + 1, i + 1)\<close>,
  its mean and population standard deviation, and the four values pushed. The two
  \<open>reduce\<close> calls have no initial value, so an empty window throws (\<open>None\<close>).
\<close>

definition band_at :: "jsval list \<Rightarrow> nat \<Rightarrow> jsval \<Rightarrow> int \<Rightarrow> (jsval \<times> jsval \<times> jsval \<times> jsval) option" where
  "band_at prices period stdDev i =
     (let slice = js_slice prices (i - int period + 1) (i + 1)
      in case reduce_add slice of
           None \<Rightarrow> None
         | Some tot \<Rightarrow>
             let sma = js_div tot (Fin (real period));
                 squaredDiffs = map (\<lambda>price. js_pow2 (js_sub price sma)) slice
             in case reduce_add squaredDiffs of
                  None \<Rightarrow> None
                | Some sq \<Rightarrow>
                    let variance = js_div sq (Fin (real period));
                        standardDeviation = js_sqrt variance;
                        up = js_add sma (js_mul standardDeviation stdDev);
                        lo = js_sub sma (js_mul standardDeviation stdDev);
                        bandWidth = js_mul (js_div (js_sub up lo) sma) (Fin 100)
                    in Some (sma, up, lo, bandWidth))"

text \<open>The loop \<open>for (let i = period - 1; i < prices.length; i++)\<close>; the first window that
  throws aborts the whole call.\<close>

definition calculateBollingerBands ::
  "jsval list \<Rightarrow> nat \<Rightarrow> jsval \<Rightarrow> nat \<Rightarrow> BollingerBands option" where
  "calculateBollingerBands prices period stdDev lookback =
     (case those (map (band_at prices period stdDev) [int period - 1 .. int (length prices) - 1]) of
        None \<Rightarrow> None
      | Some rows \<Rightarrow>
          let widths = map (\<lambda>(m, u, l, w). w) rows;
              recentBandWidths = js_slice_from widths (- int lookback)
          in Some \<lparr> upper = map (\<lambda>(m, u, l, w). u) rows,
                    middle = map (\<lambda>(m, u, l, w). m) rows,
                    lower = map (\<lambda>(m, u, l, w). l) rows,
                    bandWidths = widths,
                    averageBandWidth =
                      js_div (reduce_add0 recentBandWidths) (Fin (real (length recentBandWidths))) \<rparr>)"

section \<open>Trade scorer (services/technicalAnalysis.ts)\<close>

datatype direction = Long | Short

definition calculateVolatilityScore :: "jsval list \<Rightarrow> jsval \<Rightarrow> jsval" where
  \<comment> \<open>\<open>bb.bandWidths\<close> is an array here, hence truthy; only \<open>!bb.averageBandWidth\<close> can fire.\<close>
  "calculateVolatilityScore bws avgBandWidth =
     (if js_falsy avgBandWidth then Fin 50
      else let currentBandWidth = js_nth bws (int (length bws) - 1);
               volatilityRatio = js_div currentBandWidth avgBandWidth
           in js_max (Fin 0) (js_min (Fin 100) (js_mul (js_sub volatilityRatio (lit 0.5)) (Fin 100))))"

definition calculateTrendScore :: "jsval list \<Rightarrow> jsval \<Rightarrow> direction \<Rightarrow> jsval" where
  "calculateTrendScore prices ema dir =
     (let recentPrices = js_slice_from prices (- 20);
          priceChange = js_mul (js_div (js_sub (js_nth recentPrices (int (length recentPrices) - 1))
                                               (js_nth recentPrices 0))
                                       (js_nth recentPrices 0)) (Fin 100);
          emaDiff = js_mul (js_div (js_sub (js_nth prices (int (length prices) - 1)) ema) ema) (Fin 100);
          trendStrength = js_div (js_add priceChange emaDiff) (Fin 2);
          score = (if dir = Long then js_add (Fin 50) (js_mul trendStrength (Fin 5))
                   else js_sub (Fin 50) (js_mul trendStrength (Fin 5)))
      in js_max (Fin 0) (js_min (Fin 100) score))"

definition calculateMomentumScore :: "jsval \<Rightarrow> direction \<Rightarrow> jsval" where
  "calculateMomentumScore rsi dir =
     (if dir = Long then
        (if js_lt rsi (Fin 30) then Fin 90
         else if js_lt rsi (Fin 40) then Fin 70
         else if js_gt rsi (Fin 70) then Fin 20
         else js_max (Fin 0) (js_sub (Fin 70) rsi))
      else
        (if js_gt rsi (Fin 70) then Fin 90
         else if js_gt rsi (Fin 60) then Fin 70
         else if js_lt rsi (Fin 30) then Fin 20
         else js_max (Fin 0) (js_sub rsi (Fin 30))))"

subsection \<open>calculateTargetProbabilities\<close>

record TargetProbabilities =
  tpProbability :: jsval
  slProbability :: jsval

text \<open>The body up to the comment \<open>// Normalize probabilities to sum to 100%\<close>: the two
  raw values \<open>tpProbability\<close> and \<open>slProbability\<close> before normalisation.\<close>

definition rawProbabilities ::
  "jsval \<Rightarrow> jsval \<Rightarrow> jsval \<Rightarrow> direction \<Rightarrow> jsval \<Rightarrow> jsval \<Rightarrow> jsval \<Rightarrow> jsval \<times> jsval" where
  "rawProbabilities currentPrice takeProfit stopLoss dir trendScore momentumScore volatilityScore =
     (let tpDistance = js_mul (js_abs (js_div (js_sub takeProfit currentPrice) currentPrice)) (Fin 100);
          slDistance = js_mul (js_abs (js_div (js_sub stopLoss currentPrice) currentPrice)) (Fin 100);
          tpBase0 = js_add (js_add (js_mul trendScore (lit 0.4)) (js_mul momentumScore (lit 0.4)))
                           (js_mul (js_sub (Fin 100) volatilityScore) (lit 0.2));
          slBase0 = js_sub (Fin 100) tpBase0;
          tpBaseProbability =
            (if dir = Long then js_mul tpBase0 (js_div trendScore (Fin 100))
             else js_mul tpBase0 (js_sub (Fin 1) (js_div trendScore (Fin 100))));
          slBaseProbability =
            (if dir = Long then js_mul slBase0 (js_sub (Fin 1) (js_div trendScore (Fin 100)))
             else js_mul slBase0 (js_div trendScore (Fin 100)));
          tpDistanceImpact = js_max (Fin 0) (js_sub (Fin 1) (js_div tpDistance (Fin 20)));
          slDistanceImpact = js_max (Fin 0) (js_sub (Fin 1) (js_div slDistance (Fin 20)));
          volatilityMultiplier = js_div volatilityScore (Fin 100)
      in (js_mul (js_mul tpBaseProbability tpDistanceImpact) (js_sub (Fin 1) volatilityMultiplier),
          js_mul (js_mul slBaseProbability slDistanceImpact) volatilityMultiplier))"

definition calculateTargetProbabilities ::
  "jsval \<Rightarrow> jsval \<Rightarrow> jsval \<Rightarrow> direction \<Rightarrow> jsval \<Rightarrow> jsval \<Rightarrow> jsval \<Rightarrow> TargetProbabilities" where
  "calculateTargetProbabilities currentPrice takeProfit stopLoss dir trendScore momentumScore volatilityScore =
     (case rawProbabilities currentPrice takeProfit stopLoss dir trendScore momentumScore volatilityScore of
        (tpRaw, slRaw) \<Rightarrow>
          let tot = js_add tpRaw slRaw;
              tpNorm = js_mul (js_div tpRaw tot) (Fin 100);
              slNorm = js_mul (js_div slRaw tot) (Fin 100)
          in \<lparr> tpProbability = js_round tpNorm, slProbability = js_round slNorm \<rparr>)"

subsection \<open>calculateTradeSuccessLikelihood and analyzeTrade\<close>

text \<open>The function is declared with six parameters, in this order.\<close>

definition calculateTradeSuccessLikelihood ::
  "jsval \<Rightarrow> jsval \<Rightarrow> jsval \<Rightarrow> jsval \<Rightarrow> jsval \<Rightarrow> jsval \<Rightarrow> jsval" where
  "calculateTradeSuccessLikelihood trendScore momentumScore volatilityScore riskRewardRatio tpProb slProb =
     (let marketConditionScore =
            js_add (js_add (js_mul trendScore (lit 0.4)) (js_mul momentumScore (lit 0.4)))
                   (js_mul (js_sub (Fin 100) volatilityScore) (lit 0.2));
          tradeParametersScore =
            js_add (js_add (js_mul (js_min (Fin 100) (js_mul riskRewardRatio (lit 33.33))) (lit 0.4))
                           (js_mul tpProb (lit 0.4)))
                   (js_mul (js_sub (Fin 100) slProb) (lit 0.2))
      in js_min (Fin 100)
           (js_add (js_mul marketConditionScore (lit 0.6)) (js_mul tradeParametersScore (lit 0.4))))"

definition generateRecommendation :: "jsval \<Rightarrow> direction \<Rightarrow> string" where
  "generateRecommendation score dir =
     (if dir = Long then
        (if js_ge score (Fin 80) then ''Strong Buy''
         else if js_ge score (Fin 60) then ''Buy''
         else if js_ge score (Fin 40) then ''Neutral''
         else if js_ge score (Fin 20) then ''Avoid Long''
         else ''Strong Avoid Long'')
      else
        (if js_ge score (Fin 80) then ''Strong Short''
         else if js_ge score (Fin 60) then ''Short''
         else if js_ge score (Fin 40) then ''Neutral''
         else if js_ge score (Fin 20) then ''Avoid Short''
         else ''Strong Avoid Short''))"

record TradeAnalysis =
  trendScore :: jsval
  momentumScore :: jsval
  volatilityScore :: jsval
  overallScore :: jsval
  marketScore :: jsval
  recommendation :: string
  takeProfitProbability :: jsval
  stopLossProbability :: jsval

text \<open>
  \<open>analyzeTrade\<close>. The \<open>direction\<close> field of the parameter object is optional and defaults
  to \<open>'long'\<close>. The result is \<open>None\<close> when the call throws (only \<open>calculateBollingerBands\<close>
  can). The four explanation strings of the result are formatted text derived from the
  same values and are left out. The call of \<open>calculateTradeSuccessLikelihood\<close> passes
  five arguments, as the source does: the sixth parameter is \<open>undefined\<close>.
\<close>

definition analyzeTrade ::
  "jsval list \<Rightarrow> jsval \<Rightarrow> jsval \<Rightarrow> jsval \<Rightarrow> direction option \<Rightarrow> TradeAnalysis option" where
  "analyzeTrade prices currentPrice takeProfit stopLoss direction_opt =
     (let dir = (case direction_opt of None \<Rightarrow> Long | Some d \<Rightarrow> d);
          ema20 = calculateEMA prices (Fin 20);
          rsi = calculateRSI prices 14
      in case calculateBollingerBands prices 20 (Fin 2) 100 of
           None \<Rightarrow> None
         | Some bb \<Rightarrow>
             let lastEMA = js_nth ema20 (int (length ema20) - 1);
                 lastRSI = js_nth rsi (int (length rsi) - 1);
                 trend = calculateTrendScore prices lastEMA dir;
                 momentum = calculateMomentumScore lastRSI dir;
                 volatility = calculateVolatilityScore (bandWidths bb) (averageBandWidth bb);
                 market = js_round (js_add (js_add (js_mul (lit 0.4) trend) (js_mul (lit 0.3) momentum))
                                           (js_mul (lit 0.3) (js_sub (Fin 100) volatility)));
                 probs = calculateTargetProbabilities currentPrice takeProfit stopLoss dir
                           trend momentum volatility;
                 overall = calculateTradeSuccessLikelihood trend momentum volatility
                             (tpProbability probs) (slProbability probs) Undefined
             in Some \<lparr> trendScore = trend,
                       momentumScore = momentum,
                       volatilityScore = volatility,
                       overallScore = overall,
                       marketScore = market,
                       recommendation = generateRecommendation overall dir,
                       takeProfitProbability = tpProbability probs,
                       stopLossProbability = slProbability probs \<rparr>)"

section \<open>Backtest simulator (services/backtesting.ts)\<close>

text \<open>The data model of \<open>types/index.ts\<close>. \<open>open\<close> is a constant of the library, so the
  field is \<open>open_c\<close>.\<close>

record OHLCData =
  time :: jsval
  open_c :: jsval
  high :: jsval
  low :: jsval
  close :: jsval
  volume :: jsval

record TradeMetrics =
  maxFavorableExcursion :: jsval
  maxAdverseExcursion :: jsval
  timeToExit :: jsval
  riskRewardRatio :: jsval

datatype trade_result = take_profit | stop_loss

text \<open>
  \<open>BacktestTrade\<close> as the interface declares it. A field that an object literal leaves
  out is absent from the object: \<open>None\<close> for \<open>result\<close> and \<open>metrics\<close>, \<open>Undefined\<close>
  for the two numbers \<open>stopLoss\<close> and \<open>takeProfit\<close> (fields \<open>trade_stopLoss\<close> and
  \<open>trade_takeProfit\<close> here).
\<close>

record BacktestTrade =
  entry_time :: jsval
  exit_time :: jsval
  entry_price :: jsval
  exit_price :: jsval
  high_price :: jsval
  low_price :: jsval
  result :: "trade_result option"
  profit_loss :: jsval
  metrics :: "TradeMetrics option"
  trade_stopLoss :: jsval
  trade_takeProfit :: jsval

record BacktestStatistics =
  total_trades :: jsval
  winning_trades :: jsval
  losing_trades :: jsval
  win_rate :: jsval
  average_profit :: jsval
  max_profit :: jsval
  max_loss :: jsval
  profit_factor :: jsval
  average_win :: jsval
  average_loss :: jsval
  average_time_to_exit :: jsval
  average_risk_reward :: jsval
  max_favorable_excursion :: jsval
  max_adverse_excursion :: jsval

record BacktestResult =
  success :: bool
  trades :: "BacktestTrade list"
  statistics :: "BacktestStatistics option"
  message :: "string option"

definition calculateProfitLoss :: "jsval \<Rightarrow> jsval \<Rightarrow> direction \<Rightarrow> jsval" where
  "calculateProfitLoss entryPrice exitPrice dir =
     (if dir = Long then js_mul (js_div (js_sub exitPrice entryPrice) entryPrice) (Fin 100)
      else js_mul (js_div (js_sub entryPrice exitPrice) entryPrice) (Fin 100))"

text \<open>
  The inner loop \<open>for (let j = i + 1; j < prices.length && !exitFound; j++)\<close> over the
  candles after the entry. It stops at the first candle that sets \<open>exitFound\<close> and yields
  the \<open>exitPrice\<close>, \<open>tradeResult\<close> and \<open>exitTime\<close> assigned there; \<open>None\<close> is the loop
  running out with \<open>exitFound\<close> still false.
\<close>

fun scan_exit ::
  "direction \<Rightarrow> jsval \<Rightarrow> jsval \<Rightarrow> OHLCData list \<Rightarrow> (jsval \<times> trade_result \<times> jsval) option" where
  "scan_exit dir takeProfit stopLoss [] = None"
| "scan_exit dir takeProfit stopLoss (candle # rest) =
     (if dir = Long then
        (if js_ge (high candle) takeProfit
           then Some (takeProfit, take_profit, nullish (time candle) (Fin 0))
         else if js_le (low candle) stopLoss
           then Some (stopLoss, stop_loss, nullish (time candle) (Fin 0))
         else scan_exit dir takeProfit stopLoss rest)
      else
        (if js_le (low candle) takeProfit
           then Some (takeProfit, take_profit, nullish (time candle) (Fin 0))
         else if js_ge (high candle) stopLoss
           then Some (stopLoss, stop_loss, nullish (time candle) (Fin 0))
         else scan_exit dir takeProfit stopLoss rest))"

text \<open>
  The body of the outer loop at entry index \<open>i\<close> (with \<open>i + 1 < prices.length\<close>, so both
  candle reads are in range). \<open>tradeResult\<close> is computed and then not used: the object
  pushed to \<open>trades\<close> has the seven fields below and no others. The two \<open>console.log\<close>
  calls have no effect on the result.
\<close>

definition simulate_entry ::
  "OHLCData list \<Rightarrow> jsval \<Rightarrow> jsval \<Rightarrow> direction \<Rightarrow> nat \<Rightarrow> BacktestTrade" where
  "simulate_entry prices takeProfit stopLoss dir i =
     (let currentCandle = prices ! i;
          nextCandle = prices ! (i + 1);
          entryPrice = nullish (open_c currentCandle) (Fin 0);
          highPrice = nullish (high currentCandle) (Fin 0);
          lowPrice = nullish (low currentCandle) (Fin 0)
      in case (case scan_exit dir takeProfit stopLoss (drop (i + 1) prices) of
                 Some found \<Rightarrow> found
               | None \<Rightarrow> (nullish (close nextCandle) (Fin 0), stop_loss,
                           nullish (time nextCandle) (Fin 0))) of
           (exitPrice, tradeResult, exitTime) \<Rightarrow>
             \<lparr> entry_time = nullish (time currentCandle) (Fin 0),
               exit_time = exitTime,
               entry_price = entryPrice,
               exit_price = exitPrice,
               high_price = highPrice,
               low_price = lowPrice,
               result = None,
               profit_loss = calculateProfitLoss entryPrice exitPrice dir,
               metrics = None,
               trade_stopLoss = Undefined,
               trade_takeProfit = Undefined \<rparr>)"

definition startIndex :: "OHLCData list \<Rightarrow> nat" where
  \<comment> \<open>\<open>Math.max(0, prices.length - 90)\<close>\<close>
  "startIndex prices = (if 90 \<le> length prices then length prices - 90 else 0)"

definition runBacktest :: "OHLCData list \<Rightarrow> jsval \<Rightarrow> jsval \<Rightarrow> direction \<Rightarrow> BacktestResult" where
  "runBacktest prices takeProfit stopLoss dir =
     (if length prices < 2
      then \<lparr> success = False, trades = [], statistics = None,
             message = Some ''Not enough price data'' \<rparr>
      else \<lparr> success = True,
             trades = map (simulate_entry prices takeProfit stopLoss dir)
                          [startIndex prices ..< length prices - 1],
             statistics = None,
             message = None \<rparr>)"

text \<open>The two exit conditions of the scan, by direction, as predicates on a candle.\<close>

definition tp_hit :: "direction \<Rightarrow> jsval \<Rightarrow> OHLCData \<Rightarrow> bool" where
  "tp_hit dir takeProfit candle =
     (if dir = Long then js_ge (high candle) takeProfit else js_le (low candle) takeProfit)"

definition sl_hit :: "direction \<Rightarrow> jsval \<Rightarrow> OHLCData \<Rightarrow> bool" where
  "sl_hit dir stopLoss candle =
     (if dir = Long then js_le (low candle) stopLoss else js_ge (high candle) stopLoss)"

text \<open>The flat series of the scenario: \<open>n\<close> candles with open, high, low and close all
  100, the candle \<open>k\<close> stamped \<open>t k\<close>.\<close>

definition flat_candle :: "real \<Rightarrow> OHLCData" where
  "flat_candle ts = \<lparr> time = Fin ts, open_c = Fin 100, high = Fin 100, low = Fin 100,
                      close = Fin 100, volume = Undefined \<rparr>"

definition flat_series :: "(nat \<Rightarrow> real) \<Rightarrow> nat \<Rightarrow> OHLCData list" where
  "flat_series t n = map (\<lambda>k. flat_candle (t k)) [0 ..< n]"

text \<open>Two small candle histories used as concrete inputs: two ordinary days, and a
  four-day history whose third candle spikes through both thresholds 110 and 95.\<close>

definition two_candles :: "OHLCData list" where
  "two_candles =
     [\<lparr> time = Fin 0, open_c = Fin 100, high = Fin 101, low = Fin 99, close = Fin 100,
        volume = Undefined \<rparr>,
      \<lparr> time = Fin 86400, open_c = Fin 100, high = Fin 102, low = Fin 98, close = Fin 101,
        volume = Undefined \<rparr>]"

definition spike_candles :: "OHLCData list" where
  "spike_candles =
     [\<lparr> time = Fin 0, open_c = Fin 100, high = Fin 100, low = Fin 100, close = Fin 100,
        volume = Undefined \<rparr>,
      \<lparr> time = Fin 86400, open_c = Fin 100, high = Fin 105, low = Fin 97, close = Fin 100,
        volume = Undefined \<rparr>,
      \<lparr> time = Fin 172800, open_c = Fin 100, high = Fin 120, low = Fin 90, close = Fin 100,
        volume = Undefined \<rparr>,
      \<lparr> time = Fin 259200, open_c = Fin 100, high = Fin 100, low = Fin 100, close = Fin 100,
        volume = Undefined \<rparr>]"

section \<open>Properties\<close>

subsection \<open>Arithmetic helpers\<close>

text \<open>The equations that evaluate \<open>fl\<close> and \<open>lit\<close> on a concrete number.\<close>

lemmas fl_eval = fl_def ulp_def expo_def round_even_def bit_length.simps lit_def Let_def

lemma fl_zero: "fl 0 = 0"
  by (simp add: fl_def)

text \<open>Two checks of \<open>fl\<close> against known doubles: \<open>0.1\<close> is \<open>0x1.999999999999ap-4\<close>, and
  the integers up to \<open>2^53\<close> are doubles.\<close>

lemma fl_one_tenth: "fl (1 / 10) = 3602879701896397 / 36028797018963968"
  by (simp add: fl_eval)

lemma fl_hundred: "fl 100 = 100"
  by (simp add: fl_eval)

text \<open>Above \<open>2^53\<close> the doubles are the even integers: \<open>2^53 + 1\<close> is a tie and goes to
  the even mantissa, \<open>2^53 + 3\<close> is a tie and goes up.\<close>

lemma fl_ties_to_even:
  "fl 9007199254740993 = 9007199254740992" "fl 9007199254740995 = 9007199254740996"
  by (simp_all add: fl_eval)

lemma js_add_commute: "js_add a b = js_add b a"
  by (cases a; cases b) (simp_all add: add.commute)

subsection \<open>calculateEMA\<close>

lemma length_ema_loop: "length (ema_loop m prev ps) = length ps"
  by (induction ps arbitrary: prev) (simp_all add: Let_def)

lemma ema_loop_nth_0:
  "ps \<noteq> [] \<Longrightarrow> ema_loop m prev ps ! 0 = js_add (js_mul (js_sub (ps ! 0) prev) m) prev"
  by (cases ps) (simp_all add: Let_def)

lemma ema_loop_nth_Suc:
  "Suc k < length ps \<Longrightarrow>
   ema_loop m prev ps ! Suc k =
     js_add (js_mul (js_sub (ps ! Suc k) (ema_loop m prev ps ! k)) m) (ema_loop m prev ps ! k)"
proof (induction ps arbitrary: prev k)
  case Nil
  then show ?case by simp
next
  case (Cons p ps)
  show ?case
  proof (cases k)
    case 0
    with Cons.prems have "ps \<noteq> []" by auto
    with 0 show ?thesis by (simp add: Let_def ema_loop_nth_0)
  next
    case (Suc j)
    with Cons.prems have "Suc j < length ps" by simp
    from Cons.IH [OF this] Suc show ?thesis by (simp add: Let_def)
  qed
qed

text \<open>
  Claim C9. For every non-empty price list and every period, \<open>calculateEMA\<close> returns a
  sequence as long as the input whose first element is the first input price, and every
  later element is \<open>previous + (current - previous) * (2 / (period + 1))\<close>, in the
  arithmetic of JavaScript numbers.
\<close>

theorem calculateEMA_seed_length_recurrence:
  assumes "prices \<noteq> []"
  shows "length (calculateEMA prices period) = length prices
       \<and> calculateEMA prices period ! 0 = prices ! 0
       \<and> (\<forall>i. 0 < i \<and> i < length prices \<longrightarrow>
            calculateEMA prices period ! i =
              js_add (calculateEMA prices period ! (i - 1))
                     (js_mul (js_sub (prices ! i) (calculateEMA prices period ! (i - 1)))
                             (js_div (Fin 2) (js_add period (Fin 1)))))"
proof -
  from assms obtain p ps where prices: "prices = p # ps" by (cases prices) auto
  let ?m = "js_div (Fin 2) (js_add period (Fin 1))"
  have ema: "calculateEMA (p # ps) period = p # ema_loop ?m p ps"
    by (simp add: calculateEMA_def js_nth_def Let_def)
  have len: "length (calculateEMA prices period) = length prices"
    by (simp add: ema prices length_ema_loop)
  have seed: "calculateEMA prices period ! 0 = prices ! 0"
    by (simp add: ema prices)
  have step: "calculateEMA prices period ! i =
              js_add (calculateEMA prices period ! (i - 1))
                     (js_mul (js_sub (prices ! i) (calculateEMA prices period ! (i - 1))) ?m)"
    if "0 < i" "i < length prices" for i
  proof (cases i)
    case 0
    with that show ?thesis by simp
  next
    case (Suc k)
    show ?thesis
    proof (cases k)
      case 0
      with Suc that have "ps \<noteq> []" by (auto simp: prices)
      with 0 Suc show ?thesis
        by (simp add: ema prices ema_loop_nth_0 js_add_commute)
    next
      case (Suc j)
      with \<open>i = Suc k\<close> that have "Suc j < length ps" by (simp add: prices)
      from ema_loop_nth_Suc [OF this, of ?m p] Suc \<open>i = Suc k\<close> show ?thesis
        by (simp add: ema prices js_add_commute)
    qed
  qed
  from len seed step show ?thesis by blast
qed

theorem calculateEMA_seed_length_recurrence_witness:
  "[Fin 10, Fin 20, Fin 40] \<noteq> []
   \<and> calculateEMA [Fin 10, Fin 20, Fin 40] (Fin 3) = [Fin 10, Fin 15, Fin (55 / 2)]
   \<and> length (calculateEMA [Fin 10, Fin 20, Fin 40] (Fin 3)) = length [Fin 10, Fin 20, Fin 40]
   \<and> calculateEMA [Fin 10, Fin 20, Fin 40] (Fin 3) ! 0 = [Fin 10, Fin 20, Fin 40] ! 0
   \<and> calculateEMA [Fin 10, Fin 20, Fin 40] (Fin 3) ! 2 =
       js_add (calculateEMA [Fin 10, Fin 20, Fin 40] (Fin 3) ! 1)
              (js_mul (js_sub ([Fin 10, Fin 20, Fin 40] ! 2)
                              (calculateEMA [Fin 10, Fin 20, Fin 40] (Fin 3) ! 1))
                      (js_div (Fin 2) (js_add (Fin 3) (Fin 1))))"
  using calculateEMA_seed_length_recurrence [of "[Fin 10, Fin 20, Fin 40]" "Fin 3"]
  by (simp add: calculateEMA_def js_nth_def js_sub_def fl_eval)

text \<open>
  Claim C10. On the empty price list \<open>calculateEMA\<close> returns the one-element list holding
  the out-of-range read \<open>prices[0]\<close> (\<open>undefined\<close>); for every input the output has
  \<open>max 1 (length prices)\<close> elements, so its length equals the input's exactly when the
  input is not empty.
\<close>

theorem calculateEMA_empty_input:
  "calculateEMA [] period = [Undefined]
   \<and> length (calculateEMA prices period) = max 1 (length prices)
   \<and> (length (calculateEMA prices period) = length prices) = (prices \<noteq> [])"
  by (cases prices) (simp_all add: calculateEMA_def js_nth_def Let_def length_ema_loop)

subsection \<open>calculateRSI\<close>

text \<open>
  Claim C8. Every value of \<open>calculateRSI\<close> should lie in \<open>[0, 100]\<close> and never be
  \<open>NaN\<close>, also on a constant series. On sixteen prices all equal to 100, with the
  default period 14, the average gain and the average loss are both zero, \<open>0 / 0\<close> is
  \<open>NaN\<close>, and both values returned are \<open>NaN\<close>.
\<close>

theorem calculateRSI_constant_series:
  "calculateRSI (replicate 16 (Fin 100)) 14 = [NaN, NaN]"
  by (simp add: calculateRSI_def price_changes_def gain_of_def loss_of_def js_gt_def js_sub_def
      js_nth_def js_slice_def reduce_add0_def rsi_value_def rsi_step_def Let_def upt_rec numeral_eq_Suc
      fl_zero)

subsection \<open>calculateTargetProbabilities\<close>

text \<open>
  Claim C5. When the two raw probability values are both zero the function should return
  a defined fallback. It divides by their sum instead: \<open>0 / 0\<close> is \<open>NaN\<close>, and both
  probabilities returned are \<open>NaN\<close>.
\<close>

theorem calculateTargetProbabilities_zero_total:
  assumes "rawProbabilities cp tp sl dir t m v = (Fin 0, Fin 0)"
  shows "calculateTargetProbabilities cp tp sl dir t m v
           = \<lparr> tpProbability = NaN, slProbability = NaN \<rparr>"
  by (simp add: calculateTargetProbabilities_def assms Let_def fl_zero)

theorem calculateTargetProbabilities_zero_total_witness:
  "rawProbabilities (Fin 100) (Fin 130) (Fin 70) Long (Fin 55) (Fin 20) (Fin 50) = (Fin 0, Fin 0)
   \<and> calculateTargetProbabilities (Fin 100) (Fin 130) (Fin 70) Long (Fin 55) (Fin 20) (Fin 50)
       = \<lparr> tpProbability = NaN, slProbability = NaN \<rparr>"
proof -
  have raw: "rawProbabilities (Fin 100) (Fin 130) (Fin 70) Long (Fin 55) (Fin 20) (Fin 50) = (Fin 0, Fin 0)"
    by (simp add: rawProbabilities_def js_sub_def js_max_def fl_eval)
  from raw calculateTargetProbabilities_zero_total [OF raw] show ?thesis by simp
qed

text \<open>A cross-check of the rounding at scores given directly (the caller does not produce
  this momentum score): the shares are the doubles 57.49999999999999 and
  42.49999999999999, and the result is 57 and 42.\<close>

lemma calculateTargetProbabilities_cross_check:
  "calculateTargetProbabilities (Fin 100) (Fin 110) (Fin 90) Long (Fin 15) (Fin 55) (Fin 10)
     = \<lparr> tpProbability = Fin 57, slProbability = Fin 42 \<rparr>"
  by (simp add: calculateTargetProbabilities_def rawProbabilities_def js_sub_def js_max_def fl_eval)

subsection \<open>analyzeTrade\<close>

lemma js_add_NaN_right: "js_add x NaN = NaN"
  by (cases x) simp_all

lemma calculateTradeSuccessLikelihood_missing_argument:
  "calculateTradeSuccessLikelihood t m v rr tp Undefined = NaN"
proof -
  have "js_mul (js_sub (Fin 100) Undefined) (lit 0.2) = NaN" by (simp add: js_sub_def lit_def)
  then show ?thesis
    by (simp add: calculateTradeSuccessLikelihood_def Let_def js_add_NaN_right js_min_def)
qed

lemma those_map_total:
  "(\<And>x. x \<in> set xs \<Longrightarrow> \<exists>y. f x = Some y) \<Longrightarrow> \<exists>ys. those (map f xs) = Some ys"
proof (induction xs)
  case Nil
  then show ?case by simp
next
  case (Cons x xs)
  then obtain y where "f x = Some y" by auto
  moreover from Cons obtain ys where "those (map f xs) = Some ys" by auto
  ultimately show ?case by simp
qed

lemma window_nonempty:
  assumes "0 < period" "int period - 1 \<le> i" "i \<le> int (length prices) - 1"
  shows "js_slice prices (i - int period + 1) (i + 1) \<noteq> []"
  using assms by (auto simp: js_slice_def Let_def min_def)

lemma reduce_add_nonempty: "xs \<noteq> [] \<Longrightarrow> \<exists>y. reduce_add xs = Some y"
  by (cases xs) simp_all

lemma band_at_defined:
  assumes "0 < period" "int period - 1 \<le> i" "i \<le> int (length prices) - 1"
  shows "\<exists>row. band_at prices period stdDev i = Some row"
proof -
  let ?slice = "js_slice prices (i - int period + 1) (i + 1)"
  have ne: "?slice \<noteq> []" using assms by (rule window_nonempty)
  then obtain s where s: "reduce_add ?slice = Some s"
    using reduce_add_nonempty by blast
  let ?sq = "map (\<lambda>price. js_pow2 (js_sub price (js_div s (Fin (real period))))) ?slice"
  from ne have "?sq \<noteq> []" by simp
  then obtain q where q: "reduce_add ?sq = Some q"
    using reduce_add_nonempty by blast
  show ?thesis by (simp add: band_at_def Let_def s q)
qed

lemma calculateBollingerBands_defined:
  assumes "0 < period"
  shows "\<exists>bb. calculateBollingerBands prices period stdDev lookback = Some bb"
proof -
  have "\<exists>rows. those (map (band_at prices period stdDev)
                  [int period - 1 .. int (length prices) - 1]) = Some rows"
  proof (rule those_map_total)
    fix i assume "i \<in> set [int period - 1 .. int (length prices) - 1]"
    then have "int period - 1 \<le> i" "i \<le> int (length prices) - 1" by auto
    from band_at_defined [OF assms this] show "\<exists>row. band_at prices period stdDev i = Some row" .
  qed
  then show ?thesis by (auto simp: calculateBollingerBands_def Let_def)
qed

text \<open>A worked input: on the three closes 646, 499, 646 the trend score is the double
  54.999999999999986, the momentum score is 20 and (fewer than 20 prices, so no band
  data) the volatility score is 50. With entry 1000, take-profit 1119 and stop-loss 910
  the shares are 37.499999999999986 and 62.500000000000014; with entry 100, take-profit
  130 and stop-loss 70 both raw values are zero.\<close>

lemma calculateRSI_example: "calculateRSI [Fin 646, Fin 499, Fin 646] 14 = [Fin 50]"
  by (simp add: calculateRSI_def price_changes_def gain_of_def loss_of_def js_gt_def js_sub_def
      js_nth_def js_slice_def reduce_add0_def rsi_value_def upt_rec fl_eval)

lemma calculateEMA_example:
  "calculateEMA [Fin 646, Fin 499, Fin 646] (Fin 20) =
     [Fin 646, Fin 632, Fin (5570858914065067 / 8796093022208)]"
  by (simp add: calculateEMA_def js_nth_def js_sub_def fl_eval)

lemma calculateBollingerBands_short:
  "calculateBollingerBands [a, b, c] 20 (Fin 2) 100 =
     Some \<lparr> upper = [], middle = [], lower = [], bandWidths = [], averageBandWidth = NaN \<rparr>"
  by (simp add: calculateBollingerBands_def js_slice_from_def js_slice_def reduce_add0_def Let_def)

lemma calculateTrendScore_example:
  "calculateTrendScore [Fin 646, Fin 499, Fin 646] (Fin (5570858914065067 / 8796093022208)) Long
     = Fin (3870280929771519 / 70368744177664)"
  by (simp add: calculateTrendScore_def js_slice_from_def js_slice_def js_nth_def js_sub_def
      js_max_def js_min_def fl_eval)

lemma calculateTargetProbabilities_example:
  "calculateTargetProbabilities (Fin 1000) (Fin 1119) (Fin 910) Long
       (Fin (3870280929771519 / 70368744177664)) (Fin 20) (Fin 50)
     = \<lparr> tpProbability = Fin 37, slProbability = Fin 63 \<rparr>"
  by (simp add: calculateTargetProbabilities_def rawProbabilities_def js_sub_def js_max_def fl_eval)

lemma calculateTargetProbabilities_example_zero_total:
  "calculateTargetProbabilities (Fin 100) (Fin 130) (Fin 70) Long
       (Fin (3870280929771519 / 70368744177664)) (Fin 20) (Fin 50)
     = \<lparr> tpProbability = NaN, slProbability = NaN \<rparr>"
  by (simp add: calculateTargetProbabilities_def rawProbabilities_def js_sub_def js_max_def fl_eval)

lemma market_example:
  "js_round (js_add (js_add (js_mul (lit 0.4) (Fin (3870280929771519 / 70368744177664)))
                            (js_mul (lit 0.3) (Fin 20)))
                    (js_mul (lit 0.3) (js_sub (Fin 100) (Fin 50)))) = Fin 43"
  by (simp add: js_sub_def fl_eval)

lemma analyzeTrade_example:
  "analyzeTrade [Fin 646, Fin 499, Fin 646] (Fin 1000) (Fin 1119) (Fin 910) (Some Long) =
     Some \<lparr> trendScore = Fin (3870280929771519 / 70368744177664), momentumScore = Fin 20,
            volatilityScore = Fin 50, overallScore = NaN, marketScore = Fin 43,
            recommendation = ''Strong Avoid Long'',
            takeProfitProbability = Fin 37, stopLossProbability = Fin 63 \<rparr>"
  by (simp add: analyzeTrade_def calculateRSI_example calculateEMA_example
      calculateBollingerBands_short calculateTrendScore_example
      calculateTargetProbabilities_example market_example
      calculateTradeSuccessLikelihood_missing_argument
      calculateMomentumScore_def calculateVolatilityScore_def js_nth_def js_gt_def js_sub_def
      js_max_def generateRecommendation_def js_ge_def js_le_def fl_eval)

lemma analyzeTrade_example_zero_total:
  "analyzeTrade [Fin 646, Fin 499, Fin 646] (Fin 100) (Fin 130) (Fin 70) (Some Long) =
     Some \<lparr> trendScore = Fin (3870280929771519 / 70368744177664), momentumScore = Fin 20,
            volatilityScore = Fin 50, overallScore = NaN, marketScore = Fin 43,
            recommendation = ''Strong Avoid Long'',
            takeProfitProbability = NaN, stopLossProbability = NaN \<rparr>"
  by (simp add: analyzeTrade_def calculateRSI_example calculateEMA_example
      calculateBollingerBands_short calculateTrendScore_example
      calculateTargetProbabilities_example_zero_total market_example
      calculateTradeSuccessLikelihood_missing_argument
      calculateMomentumScore_def calculateVolatilityScore_def js_nth_def js_gt_def js_sub_def
      js_max_def generateRecommendation_def js_ge_def js_le_def fl_eval)

text \<open>The closes 99, 98, 109 with entry 100, stop-loss 98 and the take-profit
  118.47926713763364, which is the double \<open>8337237239565255 / 2^46\<close>.\<close>

lemma calculateEMA_spike:
  "calculateEMA [Fin 99, Fin 98, Fin 109] (Fin 20) =
     [Fin 99, Fin (3479901944214479 / 35184372088832), Fin (7027460005280045 / 70368744177664)]"
  by (simp add: calculateEMA_def js_nth_def js_sub_def fl_eval)

lemma calculateRSI_spike:
  "calculateRSI [Fin 99, Fin 98, Fin 109] 14 = [Fin (6450468216285867 / 70368744177664)]"
  by (simp add: calculateRSI_def price_changes_def gain_of_def loss_of_def js_gt_def js_sub_def
      js_nth_def js_slice_def reduce_add0_def rsi_value_def upt_rec fl_eval)

lemma calculateTrendScore_spike:
  "calculateTrendScore [Fin 99, Fin 98, Fin 109] (Fin (7027460005280045 / 70368744177664)) Long
     = Fin (3452205542132709 / 35184372088832)"
  by (simp add: calculateTrendScore_def js_slice_from_def js_slice_def js_nth_def js_sub_def
      js_max_def js_min_def fl_eval)

lemma rawProbabilities_spike:
  "rawProbabilities (Fin 100) (Fin (8337237239565255 / 70368744177664)) (Fin 98) Long
       (Fin (3452205542132709 / 35184372088832)) (Fin 20) (Fin 50)
     = (Fin (2404321540369839 / 1125899906842624), Fin (6524006986734537 / 18014398509481984))"
  by (simp add: rawProbabilities_def js_sub_def js_max_def fl_eval)

lemma calculateTargetProbabilities_spike:
  "calculateTargetProbabilities (Fin 100) (Fin (8337237239565255 / 70368744177664)) (Fin 98) Long
       (Fin (3452205542132709 / 35184372088832)) (Fin 20) (Fin 50)
     = \<lparr> tpProbability = Fin 86, slProbability = Fin 15 \<rparr>"
  by (simp add: calculateTargetProbabilities_def rawProbabilities_spike fl_eval)

lemma market_spike:
  "js_round (js_add (js_add (js_mul (lit 0.4) (Fin (3452205542132709 / 35184372088832)))
                            (js_mul (lit 0.3) (Fin 20)))
                    (js_mul (lit 0.3) (js_sub (Fin 100) (Fin 50)))) = Fin 60"
  by (simp add: js_sub_def fl_eval)

text \<open>
  Claim C4. The two integer probabilities should sum to exactly 100 whenever the raw
  values are not both zero. On the closes 99, 98, 109 with entry 100, take-profit
  118.47926713763364 and stop-loss 98, long, both raw values are positive, the
  normalised shares are the doubles 85.5 and 14.500000000000007, and each is rounded on
  its own: \<open>analyzeTrade\<close> returns the probabilities 86 and 15, which sum to 101.
\<close>

theorem analyzeTrade_probabilities_sum_to_101:
  "analyzeTrade [Fin 99, Fin 98, Fin 109] (Fin 100) (Fin (8337237239565255 / 70368744177664))
       (Fin 98) (Some Long) =
     Some \<lparr> trendScore = Fin (3452205542132709 / 35184372088832), momentumScore = Fin 20,
            volatilityScore = Fin 50, overallScore = NaN, marketScore = Fin 60,
            recommendation = ''Strong Avoid Long'',
            takeProfitProbability = Fin 86, stopLossProbability = Fin 15 \<rparr>
   \<and> rawProbabilities (Fin 100) (Fin (8337237239565255 / 70368744177664)) (Fin 98) Long
       (Fin (3452205542132709 / 35184372088832)) (Fin 20) (Fin 50)
     = (Fin (2404321540369839 / 1125899906842624), Fin (6524006986734537 / 18014398509481984))
   \<and> js_add (Fin 86) (Fin 15) = Fin 101"
  by (simp add: analyzeTrade_def calculateRSI_spike calculateEMA_spike
      calculateBollingerBands_short calculateTrendScore_spike
      calculateTargetProbabilities_spike rawProbabilities_spike market_spike
      calculateTradeSuccessLikelihood_missing_argument
      calculateMomentumScore_def calculateVolatilityScore_def js_nth_def js_gt_def js_sub_def
      js_max_def generateRecommendation_def js_ge_def js_le_def Let_def fl_eval)

text \<open>
  Claim C1. The overall score returned by \<open>analyzeTrade\<close> should be the 60/40 blend of
  the market-condition and trade-parameters sub-scores and lie in \<open>[0, 100]\<close>. The call
  passes five arguments to the six parameters of \<open>calculateTradeSuccessLikelihood\<close>, so
  \<open>slProbability\<close> is \<open>undefined\<close>, \<open>100 - undefined\<close> is \<open>NaN\<close>, and for every
  input \<open>analyzeTrade\<close> returns (it never throws) with the overall score \<open>NaN\<close>.
\<close>

theorem analyzeTrade_overallScore_NaN:
  "\<exists>r. analyzeTrade prices currentPrice takeProfit stopLoss dir = Some r
       \<and> overallScore r = NaN"
proof -
  obtain bb where "calculateBollingerBands prices 20 (Fin 2) 100 = Some bb"
    using calculateBollingerBands_defined [of 20 prices "Fin 2" 100] by auto
  then show ?thesis
    by (simp add: analyzeTrade_def Let_def calculateTradeSuccessLikelihood_missing_argument)
qed

subsection \<open>runBacktest\<close>

lemma scan_exit_Cons:
  "scan_exit dir tp sl (c # rest) =
     (if tp_hit dir tp c then Some (tp, take_profit, nullish (time c) (Fin 0))
      else if sl_hit dir sl c then Some (sl, stop_loss, nullish (time c) (Fin 0))
      else scan_exit dir tp sl rest)"
  by (cases dir) (simp_all add: tp_hit_def sl_hit_def)

lemma scan_exit_first_hit:
  assumes "\<forall>c \<in> set pre. \<not> tp_hit dir tp c \<and> \<not> sl_hit dir sl c"
    and "tp_hit dir tp c \<or> sl_hit dir sl c"
  shows "scan_exit dir tp sl (pre @ c # post) =
           Some (if tp_hit dir tp c then (tp, take_profit, nullish (time c) (Fin 0))
                 else (sl, stop_loss, nullish (time c) (Fin 0)))"
  using assms by (induction pre) (auto simp add: scan_exit_Cons simp del: scan_exit.simps)

lemma scan_exit_no_hit:
  "\<forall>c \<in> set cs. \<not> tp_hit dir tp c \<and> \<not> sl_hit dir sl c \<Longrightarrow> scan_exit dir tp sl cs = None"
  by (induction cs) (simp_all add: scan_exit_Cons del: scan_exit.simps(2))

lemma trades_runBacktest:
  "2 \<le> length prices \<Longrightarrow>
   trades (runBacktest prices tp sl dir) =
     map (simulate_entry prices tp sl dir) [startIndex prices ..< length prices - 1]"
  by (simp add: runBacktest_def)

lemma drop_split_at:
  assumes "i < j" "j < length xs"
  shows "drop (Suc i) xs = take (j - Suc i) (drop (Suc i) xs) @ xs ! j # drop (Suc j) xs"
proof -
  let ?ys = "drop (Suc i) xs"
  have k: "j - Suc i < length ?ys" using assms by simp
  have a: "?ys ! (j - Suc i) = xs ! j" using assms by simp
  have "Suc (j - Suc i) + Suc i = Suc j" using assms by simp
  then have b: "drop (Suc (j - Suc i)) ?ys = drop (Suc j) xs" by (simp only: drop_drop)
  from id_take_nth_drop [OF k] show ?thesis by (simp only: a b)
qed

lemma flat_candle_no_hit:
  "\<not> tp_hit Long (Fin 110) (flat_candle ts) \<and> \<not> sl_hit Long (Fin 95) (flat_candle ts)"
  by (simp add: tp_hit_def sl_hit_def flat_candle_def js_ge_def js_le_def)

lemma flat_series_scan:
  "scan_exit Long (Fin 110) (Fin 95) (drop m (flat_series t n)) = None"
proof (rule scan_exit_no_hit, rule ballI)
  fix c assume "c \<in> set (drop m (flat_series t n))"
  then have "c \<in> set (flat_series t n)" by (rule in_set_dropD)
  then obtain k where "c = flat_candle (t k)" by (auto simp: flat_series_def)
  then show "\<not> tp_hit Long (Fin 110) c \<and> \<not> sl_hit Long (Fin 95) c"
    by (simp add: flat_candle_no_hit)
qed

lemma flat_series_simulate_entry:
  assumes "Suc k < n"
  shows "simulate_entry (flat_series t n) (Fin 110) (Fin 95) Long k =
           \<lparr> entry_time = Fin (t k), exit_time = Fin (t (Suc k)),
             entry_price = Fin 100, exit_price = Fin 100,
             high_price = Fin 100, low_price = Fin 100,
             result = None, profit_loss = Fin 0, metrics = None,
             trade_stopLoss = Undefined, trade_takeProfit = Undefined \<rparr>"
proof -
  have c: "flat_series t n ! k = flat_candle (t k)" "flat_series t n ! Suc k = flat_candle (t (Suc k))"
    using assms by (simp_all add: flat_series_def)
  show ?thesis
    by (simp add: simulate_entry_def Let_def c flat_series_scan flat_candle_def nullish_def
        calculateProfitLoss_def js_sub_def fl_zero)
qed

lemma simulate_entry_absent_fields:
  "metrics (simulate_entry prices takeProfit stopLoss dir i) = None"
  "result (simulate_entry prices takeProfit stopLoss dir i) = None"
  by (simp_all add: simulate_entry_def Let_def split: prod.splits)

text \<open>
  Claim C7. For the entry at candle \<open>i\<close> of the window, if candle \<open>j > i\<close> is the first
  candle after the entry on which the take-profit or the stop-loss condition holds, the
  trade of that entry exits at the time of candle \<open>j\<close>, at the take-profit price when the
  take-profit condition holds there (also when the stop-loss condition holds too), and at
  the stop-loss price otherwise; for both directions.
\<close>

theorem runBacktest_exits_at_first_hit:
  assumes "startIndex prices \<le> i" and "i < j" and "j < length prices"
    and "tp_hit dir takeProfit (prices ! j) \<or> sl_hit dir stopLoss (prices ! j)"
    and "\<forall>k. i < k \<and> k < j \<longrightarrow>
           \<not> tp_hit dir takeProfit (prices ! k) \<and> \<not> sl_hit dir stopLoss (prices ! k)"
  shows "entry_time (trades (runBacktest prices takeProfit stopLoss dir) ! (i - startIndex prices))
           = nullish (time (prices ! i)) (Fin 0)
       \<and> exit_time (trades (runBacktest prices takeProfit stopLoss dir) ! (i - startIndex prices))
           = nullish (time (prices ! j)) (Fin 0)
       \<and> exit_price (trades (runBacktest prices takeProfit stopLoss dir) ! (i - startIndex prices))
           = (if tp_hit dir takeProfit (prices ! j) then takeProfit else stopLoss)"
proof -
  let ?pre = "take (j - Suc i) (drop (Suc i) prices)"
  have len: "2 \<le> length prices" using assms(2,3) by simp
  have idx: "i - startIndex prices < length [startIndex prices ..< length prices - 1]"
    using assms(1-3) by simp
  have nth: "[startIndex prices ..< length prices - 1] ! (i - startIndex prices) = i"
    using assms(1-3) by simp
  have tr: "trades (runBacktest prices takeProfit stopLoss dir) ! (i - startIndex prices)
              = simulate_entry prices takeProfit stopLoss dir i"
    using idx nth by (simp add: trades_runBacktest [OF len] del: length_upt)
  have pre: "\<forall>c \<in> set ?pre. \<not> tp_hit dir takeProfit c \<and> \<not> sl_hit dir stopLoss c"
  proof
    fix c assume "c \<in> set ?pre"
    then obtain m where m: "m < length ?pre" "c = ?pre ! m" by (auto simp: in_set_conv_nth)
    then have "m < j - Suc i" by simp
    with m assms(2,3) have "c = prices ! (Suc i + m)" by simp
    moreover have "i < Suc i + m \<and> Suc i + m < j" using \<open>m < j - Suc i\<close> by simp
    ultimately show "\<not> tp_hit dir takeProfit c \<and> \<not> sl_hit dir stopLoss c"
      using assms(5) by blast
  qed
  have "scan_exit dir takeProfit stopLoss (drop (i + 1) prices) =
          Some (if tp_hit dir takeProfit (prices ! j)
                then (takeProfit, take_profit, nullish (time (prices ! j)) (Fin 0))
                else (stopLoss, stop_loss, nullish (time (prices ! j)) (Fin 0)))"
    using scan_exit_first_hit [OF pre assms(4), of "drop (Suc j) prices"]
      drop_split_at [OF assms(2,3)] by simp
  then show ?thesis
    by (simp add: tr simulate_entry_def Let_def)
qed

theorem runBacktest_exits_at_first_hit_witness:
  "startIndex spike_candles \<le> 0 \<and> (0::nat) < 2 \<and> 2 < length spike_candles
   \<and> tp_hit Long (Fin 110) (spike_candles ! 2) \<and> sl_hit Long (Fin 95) (spike_candles ! 2)
   \<and> \<not> tp_hit Long (Fin 110) (spike_candles ! 1) \<and> \<not> sl_hit Long (Fin 95) (spike_candles ! 1)
   \<and> entry_time (trades (runBacktest spike_candles (Fin 110) (Fin 95) Long) ! 0) = Fin 0
   \<and> exit_time (trades (runBacktest spike_candles (Fin 110) (Fin 95) Long) ! 0) = Fin 172800
   \<and> exit_price (trades (runBacktest spike_candles (Fin 110) (Fin 95) Long) ! 0) = Fin 110"
proof -
  have quiet: "\<not> tp_hit Long (Fin 110) (spike_candles ! 1) \<and> \<not> sl_hit Long (Fin 95) (spike_candles ! 1)"
    by (simp add: spike_candles_def tp_hit_def sl_hit_def js_ge_def js_le_def)
  have before: "\<forall>k. 0 < k \<and> k < 2 \<longrightarrow>
      \<not> tp_hit Long (Fin 110) (spike_candles ! k) \<and> \<not> sl_hit Long (Fin 95) (spike_candles ! k)"
  proof (intro allI impI)
    fix k :: nat assume "0 < k \<and> k < 2"
    then have "k = 1" by arith
    with quiet show "\<not> tp_hit Long (Fin 110) (spike_candles ! k) \<and> \<not> sl_hit Long (Fin 95) (spike_candles ! k)"
      by simp
  qed
  have hit: "tp_hit Long (Fin 110) (spike_candles ! 2) \<and> sl_hit Long (Fin 95) (spike_candles ! 2)"
    by (simp add: spike_candles_def tp_hit_def sl_hit_def js_ge_def js_le_def)
  have start: "startIndex spike_candles \<le> 0" "2 < length spike_candles"
    by (simp_all add: spike_candles_def startIndex_def)
  have times: "nullish (time (spike_candles ! 0)) (Fin 0) = Fin 0"
    "nullish (time (spike_candles ! 2)) (Fin 0) = Fin 172800"
    by (simp_all add: spike_candles_def nullish_def)
  from hit have "tp_hit Long (Fin 110) (spike_candles ! 2) \<or> sl_hit Long (Fin 95) (spike_candles ! 2)"
    by simp
  from runBacktest_exits_at_first_hit [OF start(1) _ start(2) this before] quiet hit start times
  show ?thesis by simp
qed

text \<open>
  Claim C2, as stated: with at least two candles the result is successful and its summary
  statistics are present. On \<open>two_candles\<close> the result is successful and its statistics
  are absent (\<open>null\<close>).
\<close>

theorem runBacktest_no_statistics_counterexample:
  "2 \<le> length two_candles
   \<and> success (runBacktest two_candles (Fin 110) (Fin 95) Long)
   \<and> statistics (runBacktest two_candles (Fin 110) (Fin 95) Long) = None"
  by (simp add: runBacktest_def two_candles_def)

text \<open>
  Claim C2, amended. For every candle history with at least two candles \<open>runBacktest\<close>
  returns a successful result with one trade per candle of the 90-candle window but the
  last, and with no summary statistics: the \<open>statistics\<close> field is \<open>null\<close>.
\<close>

theorem runBacktest_success_without_statistics:
  assumes "2 \<le> length prices"
  shows "success (runBacktest prices takeProfit stopLoss dir)
       \<and> statistics (runBacktest prices takeProfit stopLoss dir) = None
       \<and> length (trades (runBacktest prices takeProfit stopLoss dir)) = min 90 (length prices) - 1"
  using assms by (auto simp: runBacktest_def startIndex_def)

theorem runBacktest_success_without_statistics_witness:
  "2 \<le> length two_candles
   \<and> success (runBacktest two_candles (Fin 110) (Fin 95) Long)
   \<and> statistics (runBacktest two_candles (Fin 110) (Fin 95) Long) = None
   \<and> length (trades (runBacktest two_candles (Fin 110) (Fin 95) Long)) = 1"
  using runBacktest_success_without_statistics [of two_candles "Fin 110" "Fin 95" Long]
  by (simp add: two_candles_def)

text \<open>
  Claim C3. Every trade of the ledger should carry its metrics (excursions, time to exit,
  risk/reward ratio). For every input, no trade of the ledger has a \<open>metrics\<close> field: the
  object pushed by \<open>runBacktest\<close> leaves it out.
\<close>

theorem runBacktest_trades_without_metrics:
  "map metrics (trades (runBacktest prices takeProfit stopLoss dir))
     = replicate (length (trades (runBacktest prices takeProfit stopLoss dir))) None"
  by (simp add: runBacktest_def simulate_entry_absent_fields map_replicate_const comp_def)

text \<open>
  Claim C6. On 90 flat candles at 100 (any timestamps \<open>t\<close>), long, take-profit 110,
  stop-loss 95, the ledger has 89 trades; each is closed at the next candle's close (exit
  price 100 at the next candle's time) with \<open>profit_loss\<close> 0, as claimed. The claim's
  \<open>stop_loss\<close> tag is not there: the trades have no \<open>result\<close> field.
\<close>

theorem runBacktest_flat_series:
  "trades (runBacktest (flat_series t 90) (Fin 110) (Fin 95) Long) =
     map (\<lambda>k. \<lparr> entry_time = Fin (t k), exit_time = Fin (t (Suc k)),
                entry_price = Fin 100, exit_price = Fin 100,
                high_price = Fin 100, low_price = Fin 100,
                result = None, profit_loss = Fin 0, metrics = None,
                trade_stopLoss = Undefined, trade_takeProfit = Undefined \<rparr>) [0 ..< 89]"
proof -
  have "length (flat_series t 90) = 90" by (simp add: flat_series_def)
  then have "trades (runBacktest (flat_series t 90) (Fin 110) (Fin 95) Long) =
      map (simulate_entry (flat_series t 90) (Fin 110) (Fin 95) Long) [0 ..< 89]"
    by (simp add: runBacktest_def startIndex_def)
  also have "\<dots> = map (\<lambda>k. \<lparr> entry_time = Fin (t k), exit_time = Fin (t (Suc k)),
                entry_price = Fin 100, exit_price = Fin 100,
                high_price = Fin 100, low_price = Fin 100,
                result = None, profit_loss = Fin 0, metrics = None,
                trade_stopLoss = Undefined, trade_takeProfit = Undefined \<rparr>) [0 ..< 89]"
    by (rule map_cong [OF refl]) (simp add: flat_series_simulate_entry)
  finally show ?thesis .
qed

end
